theory Spec2Isabelle
  imports Main "HOL-Library.Word"
begin

section \<open>Data model\<close>

text \<open>
  Identifiers, user names, event names and timestamps are only ever compared for equality
  or passed on, so they are \<open>string\<close>s. Message content is inspected by length and by
  \<open>trim()\<close>; a JavaScript string is a sequence of UTF-16 code units, so content is a list of
  16-bit words and \<open>length\<close> is JavaScript's \<open>.length\<close>.

  Record fields are global names in HOL. Where two interfaces of the source share a field
  name, the fields of the later record carry a short prefix (\<open>r_\<close> for ChatRoom, \<open>t_\<close> for
  TypingIndicator, \<open>p_\<close> for a partial message, \<open>u_\<close> for User, \<open>a_\<close> for AuthUser, \<open>rc_\<close>
  for a receipt, \<open>d_\<close> for the offline delta); a name that clashes with a constant of HOL or
  with a name of the other chat provider carries a suffix. Nothing else of the source's
  names is changed.
\<close>

type_synonym utf16 = "16 word list"

text \<open>\<open>types/chatTypes.ts\<close>: Message, ChatRoom, TypingIndicator, ChatState.\<close>

record Message =
  message_id :: string
  sender_id :: string
  content :: utf16
  room_id :: string
  message_type :: string
  timestamp :: string
  sender_username :: string
  read_by :: "string list"
  delivered_to :: "string list"

record ChatRoom =
  r_room_id :: string
  r_name :: string
  r_room_type :: string
  r_created_at :: string
  r_last_activity :: string
  r_member_count :: nat

record TypingIndicator =
  t_user_id :: string
  t_room_id :: string
  t_username :: string
  t_is_typing :: bool

record ChatState =
  messages :: "Message list"
  currentRoom :: "ChatRoom option"
  typingUsers :: "TypingIndicator list"
  isLoading :: bool
  error :: "string option"

section \<open>The chat store (\<open>stores/chatStore.ts\<close>)\<close>

definition initialState :: ChatState where
  "initialState =
     \<lparr>messages = [], currentRoom = None, typingUsers = [], isLoading = False, error = None\<rparr>"

text \<open>\<open>Array.prototype.findIndex\<close>: the index of the first element satisfying the
  predicate, \<open>-1\<close> when there is none.\<close>

fun findIndex :: "('a \<Rightarrow> bool) \<Rightarrow> 'a list \<Rightarrow> int" where
  "findIndex p [] = - 1"
| "findIndex p (x # xs) =
     (if p x then 0
      else (let i = findIndex p xs in if i < 0 then - 1 else i + 1))"

definition addTypingUser :: "TypingIndicator \<Rightarrow> ChatState \<Rightarrow> ChatState" where
  "addTypingUser user state =
     (let existingIndex =
            findIndex (\<lambda>u. t_user_id u = t_user_id user \<and> t_room_id u = t_room_id user)
              (typingUsers state)
      in if existingIndex \<ge> 0
         then state\<lparr>typingUsers := (typingUsers state)[nat existingIndex := user]\<rparr>
         else state\<lparr>typingUsers := typingUsers state @ [user]\<rparr>)"

definition removeTypingUser :: "string \<Rightarrow> string \<Rightarrow> ChatState \<Rightarrow> ChatState" where
  "removeTypingUser userId roomId state =
     state\<lparr>typingUsers :=
       filter (\<lambda>user. \<not> (t_user_id user = userId \<and> t_room_id user = roomId))
         (typingUsers state)\<rparr>"

text \<open>\<open>Partial<Message>\<close>: every field may be absent.\<close>

record MessagePatch =
  p_message_id :: "string option"
  p_sender_id :: "string option"
  p_content :: "utf16 option"
  p_room_id :: "string option"
  p_message_type :: "string option"
  p_timestamp :: "string option"
  p_sender_username :: "string option"
  p_read_by :: "string list option"
  p_delivered_to :: "string list option"

definition no_updates :: MessagePatch where
  "no_updates =
     \<lparr>p_message_id = None, p_sender_id = None, p_content = None, p_room_id = None,
      p_message_type = None, p_timestamp = None, p_sender_username = None,
      p_read_by = None, p_delivered_to = None\<rparr>"

text \<open>The object spread \<open>{ ...msg, ...updates }\<close>: a field present in \<open>updates\<close> wins.\<close>

definition spread :: "Message \<Rightarrow> MessagePatch \<Rightarrow> Message" where
  "spread msg updates =
     \<lparr>message_id = (case p_message_id updates of Some v \<Rightarrow> v | None \<Rightarrow> message_id msg),
      sender_id = (case p_sender_id updates of Some v \<Rightarrow> v | None \<Rightarrow> sender_id msg),
      content = (case p_content updates of Some v \<Rightarrow> v | None \<Rightarrow> content msg),
      room_id = (case p_room_id updates of Some v \<Rightarrow> v | None \<Rightarrow> room_id msg),
      message_type = (case p_message_type updates of Some v \<Rightarrow> v | None \<Rightarrow> message_type msg),
      timestamp = (case p_timestamp updates of Some v \<Rightarrow> v | None \<Rightarrow> timestamp msg),
      sender_username =
        (case p_sender_username updates of Some v \<Rightarrow> v | None \<Rightarrow> sender_username msg),
      read_by = (case p_read_by updates of Some v \<Rightarrow> v | None \<Rightarrow> read_by msg),
      delivered_to = (case p_delivered_to updates of Some v \<Rightarrow> v | None \<Rightarrow> delivered_to msg)\<rparr>"

definition setMessages :: "Message list \<Rightarrow> ChatState \<Rightarrow> ChatState" where
  "setMessages msgs state = state\<lparr>messages := msgs\<rparr>"

definition addMessage :: "Message \<Rightarrow> ChatState \<Rightarrow> ChatState" where
  "addMessage message state = state\<lparr>messages := message # messages state\<rparr>"

definition updateMessage :: "string \<Rightarrow> MessagePatch \<Rightarrow> ChatState \<Rightarrow> ChatState" where
  "updateMessage messageId updates state =
     state\<lparr>messages :=
       map (\<lambda>msg. if message_id msg = messageId then spread msg updates else msg)
         (messages state)\<rparr>"

definition removeMessage :: "string \<Rightarrow> ChatState \<Rightarrow> ChatState" where
  "removeMessage messageId state =
     state\<lparr>messages := filter (\<lambda>msg. message_id msg \<noteq> messageId) (messages state)\<rparr>"

definition setCurrentRoom :: "ChatRoom option \<Rightarrow> ChatState \<Rightarrow> ChatState" where
  "setCurrentRoom room state = state\<lparr>currentRoom := room\<rparr>"

definition setTypingUsers :: "TypingIndicator list \<Rightarrow> ChatState \<Rightarrow> ChatState" where
  "setTypingUsers users state = state\<lparr>typingUsers := users\<rparr>"

definition setLoading :: "bool \<Rightarrow> ChatState \<Rightarrow> ChatState" where
  "setLoading loading state = state\<lparr>isLoading := loading\<rparr>"

definition setError :: "string option \<Rightarrow> ChatState \<Rightarrow> ChatState" where
  "setError e state = state\<lparr>error := e\<rparr>"

definition clearError :: "ChatState \<Rightarrow> ChatState" where
  "clearError state = state\<lparr>error := None\<rparr>"

definition clearMessages :: "ChatState \<Rightarrow> ChatState" where
  "clearMessages state = state\<lparr>messages := []\<rparr>"

definition clearTypingUsers :: "ChatState \<Rightarrow> ChatState" where
  "clearTypingUsers state = state\<lparr>typingUsers := []\<rparr>"

text \<open>\<open>set(initialState)\<close> overwrites every data field of the store.\<close>

definition reset :: "ChatState \<Rightarrow> ChatState" where
  "reset state = initialState"

text \<open>A sequence of the two typing operations, applied to the store in order.\<close>

datatype typing_op = AddTypingUser TypingIndicator | RemoveTypingUser string string

fun apply_typing_op :: "ChatState \<Rightarrow> typing_op \<Rightarrow> ChatState" where
  "apply_typing_op state (AddTypingUser user) = addTypingUser user state"
| "apply_typing_op state (RemoveTypingUser userId roomId) = removeTypingUser userId roomId state"

definition run_typing_ops :: "typing_op list \<Rightarrow> ChatState \<Rightarrow> ChatState" where
  "run_typing_ops ops state = foldl apply_typing_op state ops"

definition typing_key :: "TypingIndicator \<Rightarrow> string \<times> string" where
  "typing_key u = (t_user_id u, t_room_id u)"

section \<open>The user store (\<open>stores/userStore.ts\<close>, types of \<open>types/userTypes.ts\<close>)\<close>

record User =
  u_user_id :: string
  u_username :: string
  u_email :: string
  u_is_online :: bool
  u_last_seen :: string
  u_created_at :: "string option"

record UserProfile = User +
  typing_in :: "string option"
  socket_id :: "string option"

record UserState =
  onlineUsers :: "User list"
  allUsers :: "User list"
  currentUser :: "UserProfile option"
  u_isLoading :: bool
  u_error :: "string option"

definition initialUserState :: UserState where
  "initialUserState =
     \<lparr>onlineUsers = [], allUsers = [], currentUser = None, u_isLoading = False,
      u_error = None\<rparr>"

definition setOnlineUsers :: "User list \<Rightarrow> UserState \<Rightarrow> UserState" where
  "setOnlineUsers users state = state\<lparr>onlineUsers := users\<rparr>"

definition setAllUsers :: "User list \<Rightarrow> UserState \<Rightarrow> UserState" where
  "setAllUsers users state = state\<lparr>allUsers := users\<rparr>"

definition addOnlineUser :: "User \<Rightarrow> UserState \<Rightarrow> UserState" where
  "addOnlineUser user state =
     (let existingIndex = findIndex (\<lambda>u. u_user_id u = u_user_id user) (onlineUsers state)
      in if existingIndex \<ge> 0
         then state\<lparr>onlineUsers := (onlineUsers state)[nat existingIndex := user]\<rparr>
         else state\<lparr>onlineUsers := onlineUsers state @ [user]\<rparr>)"

definition removeOnlineUser :: "string \<Rightarrow> UserState \<Rightarrow> UserState" where
  "removeOnlineUser userId state =
     state\<lparr>onlineUsers := filter (\<lambda>user. u_user_id user \<noteq> userId) (onlineUsers state)\<rparr>"

section \<open>The transport (\<open>api/socket.ts\<close>)\<close>

text \<open>The payload of an emitted event is typed \<open>any\<close>; it is a JSON value here.\<close>

datatype json =
  JNull | JBool bool | JNum int | JStr string | JText utf16 | JObj "(string \<times> json) list"

text \<open>
  A socket.io client socket, as far as \<open>SocketAPI\<close> reads it: the \<open>connected\<close> flag, and
  the calls made to its \<open>emit\<close>, in order. \<open>io(url, options)\<close> returns a socket that is
  not connected.
\<close>

record Socket =
  connected :: bool
  emitted :: "(string \<times> json) list"

definition io :: Socket where
  "io = \<lparr>connected = False, emitted = []\<rparr>"

text \<open>\<open>types/socketTypes.ts\<close>: ConnectionState (its \<open>error\<close> field is \<open>conn_error\<close>).\<close>

record ConnectionState =
  isConnected :: bool
  isConnecting :: bool
  conn_error :: "string option"

text \<open>The private fields of class \<open>SocketAPI\<close>. \<open>heartbeatInterval\<close> is the timer handle:
  \<open>True\<close> when a timer is set, \<open>False\<close> for \<open>null\<close>. The listener registry
  \<open>eventListeners\<close> is written by \<open>on\<close>/\<open>off\<close> only, which no operation below calls.\<close>

record SocketAPI =
  socket :: "Socket option"
  chatSocket :: "Socket option"
  connectionState :: ConnectionState
  heartbeatInterval :: bool

definition initialSocketAPI :: SocketAPI where
  "initialSocketAPI =
     \<lparr>socket = None, chatSocket = None,
      connectionState = \<lparr>isConnected = False, isConnecting = False, conn_error = None\<rparr>,
      heartbeatInterval = False\<rparr>"

text \<open>\<open>this.socket?.connected\<close>: falsy when the socket is \<open>null\<close>.\<close>

definition is_connected :: "Socket option \<Rightarrow> bool" where
  "is_connected s = (case s of None \<Rightarrow> False | Some sock \<Rightarrow> connected sock)"

definition socket_emit :: "string \<Rightarrow> json \<Rightarrow> Socket \<Rightarrow> Socket" where
  "socket_emit event data sock = sock\<lparr>emitted := emitted sock @ [(event, data)]\<rparr>"

definition emit :: "string \<Rightarrow> json \<Rightarrow> SocketAPI \<Rightarrow> SocketAPI" where
  "emit event data api =
     (if is_connected (socket api)
      then api\<lparr>socket := map_option (socket_emit event data) (socket api)\<rparr>
      else api)"

definition emitToChat :: "string \<Rightarrow> json \<Rightarrow> SocketAPI \<Rightarrow> SocketAPI" where
  "emitToChat event data api =
     (if is_connected (chatSocket api)
      then api\<lparr>chatSocket := map_option (socket_emit event data) (chatSocket api)\<rparr>
      else api)"

definition stopHeartbeat :: "SocketAPI \<Rightarrow> SocketAPI" where
  "stopHeartbeat api = (if heartbeatInterval api then api\<lparr>heartbeatInterval := False\<rparr> else api)"

definition startHeartbeat :: "SocketAPI \<Rightarrow> SocketAPI" where
  "startHeartbeat api = (stopHeartbeat api)\<lparr>heartbeatInterval := True\<rparr>"

text \<open>The callback of the heartbeat timer.\<close>

definition heartbeat_tick :: "SocketAPI \<Rightarrow> SocketAPI" where
  "heartbeat_tick api =
     (if is_connected (socket api) then emit ''heartbeat'' (JObj []) api else api)"

text \<open>
  \<open>connect()\<close> returns a \<open>Promise<void>\<close>. A promise settles at most once: \<open>resolve\<close> and
  \<open>reject\<close> on a settled promise do nothing.
\<close>

datatype promise = Pending | Resolved | Rejected string

definition resolve :: "promise \<Rightarrow> promise" where
  "resolve p = (case p of Pending \<Rightarrow> Resolved | _ \<Rightarrow> p)"

definition reject :: "string \<Rightarrow> promise \<Rightarrow> promise" where
  "reject msg p = (case p of Pending \<Rightarrow> Rejected msg | _ \<Rightarrow> p)"

text \<open>
  The executor of the promise runs at the call. With a connected socket it resolves and
  returns; otherwise it marks the state as connecting, clears the error and replaces
  \<open>this.socket\<close> by a new transport, on which it registers the four handlers of
  \<open>on_transport\<close>.
\<close>

definition connect :: "SocketAPI \<Rightarrow> promise \<times> SocketAPI" where
  "connect api =
     (if is_connected (socket api) then (resolve Pending, api)
      else (Pending,
            api\<lparr>connectionState := (connectionState api)\<lparr>isConnecting := True, conn_error := None\<rparr>,
                socket := Some io\<rparr>))"

text \<open>
  The events of the transport created by a \<open>connect()\<close> call, delivered to the handlers
  that call registered, while \<open>this.socket\<close> is still that transport. socket.io sets the
  socket's \<open>connected\<close> flag before it fires \<open>connect\<close> and clears it before it fires
  \<open>disconnect\<close>; \<open>error\<close> and \<open>connect_error\<close> leave it as it is.
\<close>

datatype transport_event = Connect | Disconnect | ErrorEvent string | ConnectError string

definition set_connected :: "bool \<Rightarrow> SocketAPI \<Rightarrow> SocketAPI" where
  "set_connected b api = api\<lparr>socket := map_option (\<lambda>s. s\<lparr>connected := b\<rparr>) (socket api)\<rparr>"

fun on_transport :: "transport_event \<Rightarrow> promise \<times> SocketAPI \<Rightarrow> promise \<times> SocketAPI" where
  "on_transport Connect (p, api) =
     (let api1 = set_connected True api;
          api2 = api1\<lparr>connectionState :=
                   (connectionState api1)\<lparr>isConnected := True, isConnecting := False\<rparr>\<rparr>;
          api3 = startHeartbeat api2;
          api4 = emit ''connected'' (JObj []) api3
      in (resolve p, api4))"
| "on_transport Disconnect (p, api) =
     (let api1 = set_connected False api;
          api2 = api1\<lparr>connectionState :=
                   (connectionState api1)\<lparr>isConnected := False, isConnecting := False\<rparr>\<rparr>;
          api3 = stopHeartbeat api2;
          api4 = emit ''disconnected'' (JObj []) api3
      in (p, api4))"
| "on_transport (ErrorEvent msg) (p, api) =
     (let api1 = api\<lparr>connectionState := (connectionState api)\<lparr>conn_error := Some msg\<rparr>\<rparr>;
          api2 = emit ''error'' (JObj [(''message'', JStr msg)]) api1
      in (reject msg p, api2))"
| "on_transport (ConnectError msg) (p, api) =
     (let api1 = api\<lparr>connectionState :=
                   (connectionState api)\<lparr>conn_error := Some msg, isConnecting := False\<rparr>\<rparr>;
          api2 = emit ''error'' (JObj [(''message'', JStr msg)]) api1
      in (reject msg p, api2))"

definition run_transport ::
  "transport_event list \<Rightarrow> promise \<times> SocketAPI \<Rightarrow> promise \<times> SocketAPI" where
  "run_transport evs c = foldl (\<lambda>c ev. on_transport ev c) c evs"

text \<open>What the first \<open>connect\<close>, \<open>error\<close> or \<open>connect_error\<close> event of a trace makes of a
  pending promise.\<close>

fun outcome :: "transport_event list \<Rightarrow> promise" where
  "outcome [] = Pending"
| "outcome (Connect # evs) = Resolved"
| "outcome (Disconnect # evs) = outcome evs"
| "outcome (ErrorEvent msg # evs) = Rejected msg"
| "outcome (ConnectError msg # evs) = Rejected msg"

text \<open>The chat methods of \<open>SocketAPI\<close> used below; \<open>messageType\<close> defaults to \<open>'text'\<close>.\<close>

definition SocketAPI_sendMessage ::
  "utf16 \<Rightarrow> string \<Rightarrow> string option \<Rightarrow> SocketAPI \<Rightarrow> SocketAPI" where
  "SocketAPI_sendMessage content' roomId messageType api =
     emitToChat ''send_message''
       (JObj [(''content'', JText content'), (''room_id'', JStr roomId),
              (''message_type'', JStr (case messageType of None \<Rightarrow> ''text'' | Some t \<Rightarrow> t))])
       api"

definition SocketAPI_stopTyping :: "string \<Rightarrow> SocketAPI \<Rightarrow> SocketAPI" where
  "SocketAPI_stopTyping roomId api = emitToChat ''typing_stop'' (JObj [(''room_id'', JStr roomId)]) api"

section \<open>Validation (\<open>utils/validators.ts\<close>)\<close>

text \<open>
  \<open>String.prototype.trim\<close> strips the code units of WhiteSpace and LineTerminator from both
  ends: TAB, LF, VT, FF, CR, SP, NBSP, U+1680, U+2000 to U+200A, U+2028, U+2029, U+202F,
  U+205F, U+3000 and U+FEFF.
\<close>

definition is_whitespace :: "16 word \<Rightarrow> bool" where
  "is_whitespace c =
     (c \<in> set [0x9, 0xA, 0xB, 0xC, 0xD, 0x20, 0xA0, 0x1680, 0x2028, 0x2029, 0x202F, 0x205F,
               0x3000, 0xFEFF]
      \<or> (0x2000 \<le> c \<and> c \<le> 0x200A))"

definition trim :: "utf16 \<Rightarrow> utf16" where
  "trim s = rev (dropWhile is_whitespace (rev (dropWhile is_whitespace s)))"

record ValidationResult =
  isValid :: bool
  errors :: "string list"

text \<open>\<open>!content\<close> is true of the empty string only.\<close>

definition validateMessage :: "utf16 \<Rightarrow> ValidationResult" where
  "validateMessage content' =
     (let errors0 = [];
          errors1 = (if content' = [] \<or> length (trim content') = 0
                     then errors0 @ [''Message cannot be empty''] else errors0);
          errors2 = (if length content' > 1000
                     then errors1 @ [''Message is too long (max 1000 characters)'']
                     else errors1)
      in \<lparr>isValid = (length errors2 = 0), errors = errors2\<rparr>)"

section \<open>The chat provider (\<open>contexts/ChatContext.tsx\<close>)\<close>

record AuthUser =
  a_user_id :: string
  a_username :: string
  a_email :: string
  a_token :: string

text \<open>\<open>MessageReceipt\<close>, the payload of \<open>message_read\<close> and \<open>message_delivered\<close>.\<close>

record MessageReceipt =
  rc_message_id :: string
  rc_user_id :: string
  rc_timestamp :: string

text \<open>The payload of \<open>user_offline\<close> is typed \<open>any\<close>. The handler reads \<open>data.user_id\<close>;
  \<open>d_last_seen\<close> is the timestamp the server sends along.\<close>

record UserOfflineData =
  d_user_id :: string
  d_last_seen :: string

text \<open>
  A call returns the exception it throws, if any, and the state it leaves. Calling a
  property that an object does not have throws a \<open>TypeError\<close>; its text is the engine's.
\<close>

datatype js_error = TypeError string

text \<open>
  What the provider and its hooks work on: the authenticated user of \<open>useAuth()\<close>, the two
  zustand stores, the \<open>socketAPI\<close> singleton, and \<open>chat_listeners\<close>: for every run of the
  provider's effect that registered listeners, in order, the value of the variable
  \<open>messages\<close> in the render of that run, which its handlers closed over. The effect depends
  on \<open>[isAuthenticated, isConnected, user]\<close> only, so a change of the store re-renders the
  provider but keeps the handlers and what they closed over.
\<close>

record App =
  user :: "AuthUser option"
  chat :: ChatState
  users :: UserState
  chat_listeners :: "Message list list"
  api :: SocketAPI

text \<open>The handlers the effect body defines. \<open>closure\<close> is the \<open>messages\<close> the handler closed
  over.\<close>

definition handleNewMessage :: "Message \<Rightarrow> App \<Rightarrow> App" where
  "handleNewMessage message app = app\<lparr>chat := addMessage message (chat app)\<rparr>"

definition handleMessageRead :: "Message list \<Rightarrow> MessageReceipt \<Rightarrow> App \<Rightarrow> App" where
  "handleMessageRead closure data app =
     app\<lparr>chat :=
       updateMessage (rc_message_id data)
         (no_updates\<lparr>p_read_by :=
            Some ((case find (\<lambda>m. message_id m = rc_message_id data) closure of
                     None \<Rightarrow> []
                   | Some m \<Rightarrow> read_by m)
                  @ [rc_user_id data])\<rparr>)
         (chat app)\<rparr>"

definition handleMessageDelivered :: "Message list \<Rightarrow> MessageReceipt \<Rightarrow> App \<Rightarrow> App" where
  "handleMessageDelivered closure data app =
     app\<lparr>chat :=
       updateMessage (rc_message_id data)
         (no_updates\<lparr>p_delivered_to :=
            Some ((case find (\<lambda>m. message_id m = rc_message_id data) closure of
                     None \<Rightarrow> []
                   | Some m \<Rightarrow> delivered_to m)
                  @ [rc_user_id data])\<rparr>)
         (chat app)\<rparr>"

definition handleRoomMessages :: "Message list \<Rightarrow> App \<Rightarrow> App" where
  "handleRoomMessages msgs app = app\<lparr>chat := setMessages msgs (chat app)\<rparr>"

definition handleUserTyping :: "TypingIndicator \<Rightarrow> App \<Rightarrow> App" where
  "handleUserTyping data app =
     (let typingUser = \<lparr>t_user_id = t_user_id data, t_room_id = t_room_id data,
                         t_username = t_username data, t_is_typing = t_is_typing data\<rparr>
      in if t_is_typing data
         then app\<lparr>chat := addTypingUser typingUser (chat app)\<rparr>
         else app\<lparr>chat := removeTypingUser (t_user_id data) (t_room_id data) (chat app)\<rparr>)"

definition handleOnlineUsers :: "User list \<Rightarrow> App \<Rightarrow> App" where
  "handleOnlineUsers us app = app\<lparr>users := setOnlineUsers us (users app)\<rparr>"

definition handleAllUsers :: "User list \<Rightarrow> App \<Rightarrow> App" where
  "handleAllUsers us app = app\<lparr>users := setAllUsers us (users app)\<rparr>"

definition handleUserOnline :: "User \<Rightarrow> App \<Rightarrow> App" where
  "handleUserOnline data app = app\<lparr>users := addOnlineUser data (users app)\<rparr>"

definition handleUserOffline :: "UserOfflineData \<Rightarrow> App \<Rightarrow> App" where
  "handleUserOffline data app = app\<lparr>users := removeOnlineUser (d_user_id data) (users app)\<rparr>"

definition handleError :: "string \<Rightarrow> App \<Rightarrow> App" where
  "handleError msg app = app\<lparr>chat := setError (Some msg) (chat app)\<rparr>"

text \<open>
  The listener methods of class \<open>ChatAPI\<close> (\<open>api/chatAPI.ts\<close>), each with the event it
  passes to \<open>socketAPI.on\<close>.
\<close>

definition ChatAPI_on :: "(string \<times> string) list" where
  "ChatAPI_on =
     [(''onNewMessage'', ''new_message''), (''onMessageSent'', ''message_sent''),
      (''onMessageRead'', ''message_read''), (''onMessageDelivered'', ''message_delivered''),
      (''onRoomMessages'', ''room_messages''), (''onJoinedRoom'', ''joined_room''),
      (''onLeftRoom'', ''left_room''), (''onUserJoinedRoom'', ''user_joined_room''),
      (''onUserLeftRoom'', ''user_left_room''), (''onUserTyping'', ''user_typing''),
      (''onTypingUsers'', ''typing_users''), (''onRoomCreated'', ''room_created''),
      (''onRoomCreatedConfirmation'', ''room_created_confirmation''),
      (''onAvailableRooms'', ''available_rooms''), (''onError'', ''error'')]"

text \<open>The methods of \<open>chatAPI\<close> that the effect body calls to register its handlers, in the
  order of the calls.\<close>

definition effect_calls :: "string list" where
  "effect_calls =
     [''onNewMessage'', ''onMessageRead'', ''onMessageDelivered'', ''onRoomMessages'',
      ''onJoinedRoom'', ''onLeftRoom'', ''onUserJoinedRoom'', ''onUserLeftRoom'', ''onUserTyping'',
      ''onTypingUsers'', ''onRoomCreated'', ''onAvailableRooms'', ''onError'', ''onOnlineUsers'',
      ''onAllUsers'', ''onUserOnline'', ''onUserOffline'']"

text \<open>
  The calls are made one after the other. A call of a method that \<open>ChatAPI\<close> has registers
  a listener for the method's event; the first call of a method that \<open>ChatAPI\<close> does not
  have throws, and the calls after it are not made. The result is the exception, if any,
  and the events that have a listener.
\<close>

fun register_listeners :: "string list \<Rightarrow> js_error option \<times> string list" where
  "register_listeners [] = (None, [])"
| "register_listeners (m # ms) =
     (case map_of ChatAPI_on m of
        None \<Rightarrow> (Some (TypeError (''chatAPI.'' @ m @ '' is not a function'')), [])
      | Some ev \<Rightarrow> (case register_listeners ms of (err, evs) \<Rightarrow> (err, ev # evs)))"

definition registered_events :: "string list" where
  "registered_events = snd (register_listeners effect_calls)"

text \<open>
  A run of the effect body. It returns at once unless the user is authenticated and the
  socket connected. Otherwise it registers its listeners, which close over the \<open>messages\<close>
  of this render, and throws when a registration throws. An effect that throws returns no
  cleanup function, so the listeners it has registered stay registered.
\<close>

definition effect_run :: "bool \<Rightarrow> bool \<Rightarrow> App \<Rightarrow> js_error option \<times> App" where
  "effect_run isAuthenticated isConnected' app =
     (if isAuthenticated \<and> isConnected'
      then (fst (register_listeners effect_calls),
            app\<lparr>chat_listeners := chat_listeners app @ [messages (chat app)]\<rparr>)
      else (None, app))"

text \<open>
  The events the server pushes. An \<open>error\<close> event arrives on the main or on the chat
  socket; \<open>joined_room\<close>, \<open>left_room\<close>, \<open>user_joined_room\<close>, \<open>user_left_room\<close>,
  \<open>typing_users\<close>, \<open>room_created\<close> and \<open>available_rooms\<close> carry payloads that no handler
  reads.
\<close>

datatype channel = MainChannel | ChatChannel

datatype ServerEvent =
    NewMessage Message
  | MessageSent string string
  | MessageRead MessageReceipt
  | MessageDelivered MessageReceipt
  | RoomMessages "Message list"
  | JoinedRoom
  | LeftRoom
  | UserJoinedRoom
  | UserLeftRoom
  | UserTyping TypingIndicator
  | TypingUsers
  | RoomCreated
  | AvailableRooms
  | OnlineUsers "User list"
  | AllUsers "User list"
  | UserOnline User
  | UserOffline UserOfflineData
  | ErrorMessage channel string

fun event_name :: "ServerEvent \<Rightarrow> string" where
  "event_name (NewMessage message) = ''new_message''"
| "event_name (MessageSent messageId ts) = ''message_sent''"
| "event_name (MessageRead data) = ''message_read''"
| "event_name (MessageDelivered data) = ''message_delivered''"
| "event_name (RoomMessages msgs) = ''room_messages''"
| "event_name JoinedRoom = ''joined_room''"
| "event_name LeftRoom = ''left_room''"
| "event_name UserJoinedRoom = ''user_joined_room''"
| "event_name UserLeftRoom = ''user_left_room''"
| "event_name (UserTyping data) = ''user_typing''"
| "event_name TypingUsers = ''typing_users''"
| "event_name RoomCreated = ''room_created''"
| "event_name AvailableRooms = ''available_rooms''"
| "event_name (OnlineUsers us) = ''online_users''"
| "event_name (AllUsers us) = ''all_users''"
| "event_name (UserOnline data) = ''user_online''"
| "event_name (UserOffline data) = ''user_offline''"
| "event_name (ErrorMessage ch msg) = ''error''"

text \<open>
  The handler that the effect body passes to the registration for an event; the
  handlers of seven events have an empty body, and the effect has no handler for
  \<open>message_sent\<close>.
\<close>

fun handler :: "Message list \<Rightarrow> ServerEvent \<Rightarrow> App \<Rightarrow> App" where
  "handler closure (NewMessage message) app = handleNewMessage message app"
| "handler closure (MessageSent messageId ts) app = app"
| "handler closure (MessageRead data) app = handleMessageRead closure data app"
| "handler closure (MessageDelivered data) app = handleMessageDelivered closure data app"
| "handler closure (RoomMessages msgs) app = handleRoomMessages msgs app"
| "handler closure JoinedRoom app = app"
| "handler closure LeftRoom app = app"
| "handler closure UserJoinedRoom app = app"
| "handler closure UserLeftRoom app = app"
| "handler closure (UserTyping data) app = handleUserTyping data app"
| "handler closure TypingUsers app = app"
| "handler closure RoomCreated app = app"
| "handler closure AvailableRooms app = app"
| "handler closure (OnlineUsers us) app = handleOnlineUsers us app"
| "handler closure (AllUsers us) app = handleAllUsers us app"
| "handler closure (UserOnline data) app = handleUserOnline data app"
| "handler closure (UserOffline data) app = handleUserOffline data app"
| "handler closure (ErrorMessage ch msg) app = handleError msg app"

text \<open>
  \<open>SocketAPI\<close> has \<open>error\<close> handlers of its own, registered before those of the provider:
  the one of \<open>connect()\<close> on the main socket (\<open>on_transport\<close>, which also rejects the promise
  of that call), and the one of \<open>connectToChat()\<close> on the chat socket, which emits the error
  on the main socket and rejects its promise. The listeners of \<open>SocketContext\<close> write the
  React state of that component, which is no part of \<open>App\<close>.
\<close>

fun SocketAPI_on_error :: "channel \<Rightarrow> string \<Rightarrow> SocketAPI \<Rightarrow> SocketAPI" where
  "SocketAPI_on_error MainChannel msg a = snd (on_transport (ErrorEvent msg) (Pending, a))"
| "SocketAPI_on_error ChatChannel msg a = emit ''error'' (JObj [(''message'', JStr msg)]) a"

definition socket_handlers :: "ServerEvent \<Rightarrow> App \<Rightarrow> App" where
  "socket_handlers ev app =
     (case ev of
        ErrorMessage ch msg \<Rightarrow> app\<lparr>api := SocketAPI_on_error ch msg (api app)\<rparr>
      | _ \<Rightarrow> app)"

text \<open>
  An event arriving on a socket that the listeners were attached to: the handlers of
  \<open>SocketAPI\<close> run, then, if the event has listeners, the handler of every run of the
  effect, in the order of registration.
\<close>

definition on_server_event :: "ServerEvent \<Rightarrow> App \<Rightarrow> App" where
  "on_server_event ev app =
     (if event_name ev \<in> set registered_events
      then foldl (\<lambda>a closure. handler closure ev a) (socket_handlers ev app) (chat_listeners app)
      else socket_handlers ev app)"

text \<open>The actions of the context value used below.\<close>

definition ChatAPI_sendMessage :: "utf16 \<Rightarrow> string \<Rightarrow> string option \<Rightarrow> SocketAPI \<Rightarrow> SocketAPI" where
  "ChatAPI_sendMessage content' roomId messageType a = SocketAPI_sendMessage content' roomId messageType a"

definition ChatContext_sendMessage :: "utf16 \<Rightarrow> string \<Rightarrow> string option \<Rightarrow> App \<Rightarrow> App" where
  "ChatContext_sendMessage content' roomId messageType app =
     (if user app = None then app
      else app\<lparr>api :=
             ChatAPI_sendMessage content' roomId
               (Some (case messageType of None \<Rightarrow> ''text'' | Some t \<Rightarrow> t)) (api app)\<rparr>)"

definition ChatContext_stopTyping :: "string \<Rightarrow> App \<Rightarrow> App" where
  "ChatContext_stopTyping roomId app =
     (if user app = None then app else app\<lparr>api := SocketAPI_stopTyping roomId (api app)\<rparr>)"

definition ChatContext_clearError :: "App \<Rightarrow> App" where
  "ChatContext_clearError app = app\<lparr>chat := clearError (chat app)\<rparr>"

definition ChatContext_clearTypingUsers :: "App \<Rightarrow> App" where
  "ChatContext_clearTypingUsers app = app\<lparr>chat := clearTypingUsers (chat app)\<rparr>"

definition ChatContext_reset :: "App \<Rightarrow> App" where
  "ChatContext_reset app = app\<lparr>chat := reset (chat app)\<rparr>"

text \<open>The property names of the object \<open>value\<close> that the provider hands to its consumers.\<close>

definition ChatContext_value :: "string list" where
  "ChatContext_value =
     [''messages'', ''currentRoom'', ''typingUsers'', ''isLoading'', ''error'', ''onlineUsers'',
      ''allUsers'', ''sendMessage'', ''joinRoom'', ''leaveRoom'', ''createRoom'', ''getMessages'',
      ''markMessageRead'', ''markMessageDelivered'', ''startTyping'', ''stopTyping'',
      ''getOnlineUsers'', ''getAllUsers'', ''getUserProfile'', ''searchUsers'',
      ''getUserStatistics'', ''getRooms'', ''updatePresence'', ''setTypingStatus'', ''clearError'',
      ''clearMessages'', ''clearTypingUsers'', ''reset'']"

section \<open>The chat hook (\<open>hooks/useChat.ts\<close>)\<close>

definition useChat_sendMessage ::
  "utf16 \<Rightarrow> string \<Rightarrow> string option \<Rightarrow> App \<Rightarrow> js_error option \<times> App" where
  "useChat_sendMessage content' roomId messageType app =
     (if user app = None then (None, app)
      else
        let validation = validateMessage content' in
        if \<not> isValid validation then
          (if ''setError'' \<in> set ChatContext_value
           then (None, app\<lparr>chat := setError (case errors validation of [] \<Rightarrow> None | e # _ \<Rightarrow> Some e)
                                      (chat app)\<rparr>)
           else (Some (TypeError ''chatContext.setError is not a function''), app))
        else
          (None,
           ChatContext_clearError
             (ChatContext_sendMessage content' roomId
                (Some (case messageType of None \<Rightarrow> ''text'' | Some t \<Rightarrow> t)) app)))"

text \<open>The callback of the timer that \<open>startTyping\<close> sets (\<open>TYPING_TIMEOUT\<close>, 5000 ms).\<close>

definition TYPING_TIMEOUT :: nat where
  "TYPING_TIMEOUT = 5000"

definition typing_timeout_fired :: "string \<Rightarrow> App \<Rightarrow> App" where
  "typing_timeout_fired roomId app = ChatContext_stopTyping roomId app"

section \<open>Runs of the client\<close>

text \<open>
  JavaScript runs one callback at a time, and time passes for the program only through
  the callbacks of its timers. A run is a list of callbacks, each with the time in
  milliseconds at which it runs: a server event reaching its listeners, a run of the
  provider's effect (with the two flags it tests; what it throws is React's to handle and
  changes no state here), the two timers of the source (the hook's typing timeout and
  the transport's heartbeat), and the two actions of the context value that write the
  typing set. The state at time \<open>t\<close> is the result of the callbacks that ran up to \<open>t\<close>.
\<close>

datatype app_event =
    Server ServerEvent
  | EffectRun bool bool
  | TypingTimeoutFired string
  | HeartbeatTick
  | ClearTypingUsers
  | Reset

fun app_step :: "App \<Rightarrow> app_event \<Rightarrow> App" where
  "app_step app (Server ev) = on_server_event ev app"
| "app_step app (EffectRun isAuthenticated isConnected') = snd (effect_run isAuthenticated isConnected' app)"
| "app_step app (TypingTimeoutFired roomId) = typing_timeout_fired roomId app"
| "app_step app HeartbeatTick = app\<lparr>api := heartbeat_tick (api app)\<rparr>"
| "app_step app ClearTypingUsers = ChatContext_clearTypingUsers app"
| "app_step app Reset = ChatContext_reset app"

definition run :: "app_event list \<Rightarrow> App \<Rightarrow> App" where
  "run evs app = foldl app_step app evs"

definition run_until :: "nat \<Rightarrow> (nat \<times> app_event) list \<Rightarrow> App \<Rightarrow> App" where
  "run_until t trace app = run (map snd (filter (\<lambda>(at, ev). at \<le> t) trace)) app"

text \<open>The events that take the entry of \<open>(userId, roomId)\<close> out of the typing set.\<close>

fun removes_typing :: "string \<Rightarrow> string \<Rightarrow> app_event \<Rightarrow> bool" where
  "removes_typing userId roomId (Server (UserTyping data)) =
     (\<not> t_is_typing data \<and> t_user_id data = userId \<and> t_room_id data = roomId)"
| "removes_typing userId roomId ClearTypingUsers = True"
| "removes_typing userId roomId Reset = True"
| "removes_typing userId roomId ev = False"

section \<open>The per-room chat reducer (second \<open>ChatContext\<close>, built on \<open>useReducer\<close>)\<close>

text \<open>
  This provider keeps messages, typing users and unread counts per room. Its names that
  clash with the store above carry a prime.
\<close>

text \<open>Modelled from the spec: the interfaces \<open>Message\<close> and \<open>Room\<close> of this provider's
  \<open>types/chatTypes\<close>, which is not among the sources. The fields are those of the spec's data
  model that the provider and the chat container read (\<open>roomId\<close>, \<open>senderId\<close>, \<open>sentAt\<close>;
  \<open>id\<close>, \<open>name\<close>, \<open>lastMessage\<close>, \<open>lastActivity\<close>); the reducer itself reads only \<open>roomId\<close>
  and \<open>id\<close>.\<close>

record Message' =
  id_m :: string
  roomId :: string
  senderId :: string
  content_m :: utf16
  sentAt :: string

record Room =
  id' :: string
  name' :: string
  lastMessage :: "Message' option"
  lastActivity :: "string option"





















section \<open>Concrete states and inputs\<close>

text \<open>Used where a statement below is evaluated at a concrete input.\<close>

definition alice :: AuthUser where
  "alice = \<lparr>a_user_id = ''u1'', a_username = ''alice'', a_email = ''alice@example.org'',
            a_token = ''tok''\<rparr>"

text \<open>Both sockets connected, as after \<open>connect()\<close> and \<open>connectToChat()\<close> succeeded.\<close>

definition connected_api :: SocketAPI where
  "connected_api =
     \<lparr>socket = Some \<lparr>connected = True, emitted = []\<rparr>,
      chatSocket = Some \<lparr>connected = True, emitted = []\<rparr>,
      connectionState = \<lparr>isConnected = True, isConnecting = False, conn_error = None\<rparr>,
      heartbeatInterval = True\<rparr>"

text \<open>No main socket yet, and a chat socket that is not connected.\<close>

definition idle_api :: SocketAPI where
  "idle_api = initialSocketAPI\<lparr>chatSocket := Some io\<rparr>"

text \<open>A logged-in, connected client with empty stores, before the provider's effect has
  run, and the same after its first run.\<close>

definition app0 :: App where
  "app0 = \<lparr>user = Some alice, chat = initialState, users = initialUserState,
           chat_listeners = [], api = connected_api\<rparr>"

definition app1 :: App where
  "app1 = snd (effect_run True True app0)"

text \<open>The content \<open>"hi"\<close>.\<close>

definition hi :: utf16 where
  "hi = [0x68, 0x69]"

definition msg1 :: Message where
  "msg1 = \<lparr>message_id = ''m1'', sender_id = ''u2'', content = hi, room_id = ''r1'',
           message_type = ''text'', timestamp = ''2024-05-01T10:00:00Z'',
           sender_username = ''bob'', read_by = [], delivered_to = []\<rparr>"

definition receipt_u1 :: MessageReceipt where
  "receipt_u1 = \<lparr>rc_message_id = ''m1'', rc_user_id = ''u1'',
                 rc_timestamp = ''2024-05-01T10:00:05Z''\<rparr>"

definition receipt_u3 :: MessageReceipt where
  "receipt_u3 = \<lparr>rc_message_id = ''m1'', rc_user_id = ''u3'',
                 rc_timestamp = ''2024-05-01T10:00:09Z''\<rparr>"

definition alice_typing :: TypingIndicator where
  "alice_typing = \<lparr>t_user_id = ''u1'', t_room_id = ''r1'', t_username = ''alice'',
                   t_is_typing = True\<rparr>"

definition alice_typing_again :: TypingIndicator where
  "alice_typing_again = \<lparr>t_user_id = ''u1'', t_room_id = ''r1'', t_username = ''alice2'',
                         t_is_typing = True\<rparr>"

definition bob_typing :: TypingIndicator where
  "bob_typing = \<lparr>t_user_id = ''u2'', t_room_id = ''r1'', t_username = ''bob'',
                 t_is_typing = True\<rparr>"

definition user1 :: User where
  "user1 = \<lparr>u_user_id = ''u1'', u_username = ''alice'', u_email = ''alice@example.org'',
            u_is_online = True, u_last_seen = ''2024-05-01T09:00:00Z'', u_created_at = None\<rparr>"

definition user2 :: User where
  "user2 = \<lparr>u_user_id = ''u2'', u_username = ''bob'', u_email = ''bob@example.org'',
            u_is_online = True, u_last_seen = ''2024-05-01T09:30:00Z'', u_created_at = None\<rparr>"

definition u2_offline :: UserOfflineData where
  "u2_offline = \<lparr>d_user_id = ''u2'', d_last_seen = ''2024-05-01T10:15:00Z''\<rparr>"






section \<open>The listeners of the chat provider\<close>

lemma register_listeners_effect_calls:
  "register_listeners effect_calls
     = (Some (TypeError ''chatAPI.onOnlineUsers is not a function''),
        [''new_message'', ''message_read'', ''message_delivered'', ''room_messages'',
         ''joined_room'', ''left_room'', ''user_joined_room'', ''user_left_room'', ''user_typing'',
         ''typing_users'', ''room_created'', ''available_rooms'', ''error''])"
  by (simp add: effect_calls_def ChatAPI_on_def)

lemma registered_events_eq:
  "registered_events
     = [''new_message'', ''message_read'', ''message_delivered'', ''room_messages'',
        ''joined_room'', ''left_room'', ''user_joined_room'', ''user_left_room'', ''user_typing'',
        ''typing_users'', ''room_created'', ''available_rooms'', ''error'']"
  by (simp add: registered_events_def register_listeners_effect_calls)

lemma effect_run_app0:
  "effect_run True True app0
     = (Some (TypeError ''chatAPI.onOnlineUsers is not a function''),
        app0\<lparr>chat_listeners := [[]]\<rparr>)"
  by (simp add: effect_run_def register_listeners_effect_calls app0_def initialState_def)

lemma on_server_event_NewMessage:
  "on_server_event (NewMessage m) app
     = foldl (\<lambda>a closure. handleNewMessage m a) app (chat_listeners app)"
  by (simp add: on_server_event_def registered_events_eq socket_handlers_def)

lemma on_server_event_MessageSent: "on_server_event (MessageSent mid ts) app = app"
  by (simp add: on_server_event_def registered_events_eq socket_handlers_def)

lemma on_server_event_UserTyping:
  "on_server_event (UserTyping d) app
     = foldl (\<lambda>a closure. handleUserTyping d a) app (chat_listeners app)"
  by (simp add: on_server_event_def registered_events_eq socket_handlers_def)

section \<open>Typing set: one entry per (user, room)\<close>

lemma findIndex_bounds: "- 1 \<le> findIndex p xs \<and> findIndex p xs < int (length xs)"
  by (induction xs) (auto simp: Let_def)

lemma findIndex_neg_iff: "findIndex p xs < 0 \<longleftrightarrow> (\<forall>x \<in> set xs. \<not> p x)"
  by (induction xs) (use findIndex_bounds in \<open>auto simp: Let_def\<close>)

lemma findIndex_hit:
  "0 \<le> findIndex p xs \<Longrightarrow> p (xs ! nat (findIndex p xs))"
proof (induction xs)
  case Nil
  then show ?case by simp
next
  case (Cons x xs)
  show ?case
  proof (cases "p x")
    case True
    then show ?thesis by simp
  next
    case False
    with Cons.prems have nn: "0 \<le> findIndex p xs"
      by (simp add: Let_def split: if_splits)
    then have "nat (findIndex p xs + 1) = Suc (nat (findIndex p xs))" by simp
    with False nn Cons.IH show ?thesis by (simp add: Let_def)
  qed
qed

lemma addTypingUser_present:
  assumes "typing_key u \<in> typing_key ` set (typingUsers s)"
  shows "\<exists>i < length (typingUsers s).
           typing_key (typingUsers s ! i) = typing_key u
           \<and> typingUsers (addTypingUser u s) = (typingUsers s)[i := u]"
proof -
  let ?p = "\<lambda>x. t_user_id x = t_user_id u \<and> t_room_id x = t_room_id u"
  let ?i = "findIndex ?p (typingUsers s)"
  from assms have "\<not> (\<forall>x \<in> set (typingUsers s). \<not> ?p x)"
    by (auto simp: typing_key_def)
  then have "\<not> ?i < 0" by (simp only: findIndex_neg_iff not_False_eq_True)
  then have nn: "0 \<le> ?i" by simp
  have lt: "nat ?i < length (typingUsers s)"
    using nn findIndex_bounds [of ?p "typingUsers s"] by simp
  have hit: "typing_key (typingUsers s ! nat ?i) = typing_key u"
    using findIndex_hit [OF nn] by (simp add: typing_key_def)
  have "typingUsers (addTypingUser u s) = (typingUsers s)[nat ?i := u]"
    using nn by (simp add: addTypingUser_def Let_def)
  with lt hit show ?thesis by blast
qed

lemma addTypingUser_absent:
  assumes "typing_key u \<notin> typing_key ` set (typingUsers s)"
  shows "typingUsers (addTypingUser u s) = typingUsers s @ [u]"
proof -
  let ?p = "\<lambda>x. t_user_id x = t_user_id u \<and> t_room_id x = t_room_id u"
  from assms have "\<forall>x \<in> set (typingUsers s). \<not> ?p x"
    by (auto simp: typing_key_def image_iff)
  then have "findIndex ?p (typingUsers s) < 0" using findIndex_neg_iff [of ?p] by blast
  then show ?thesis by (simp add: addTypingUser_def Let_def)
qed

lemma addTypingUser_present_keys:
  assumes "typing_key u \<in> typing_key ` set (typingUsers s)"
  shows "map typing_key (typingUsers (addTypingUser u s)) = map typing_key (typingUsers s)"
proof -
  from addTypingUser_present [OF assms] obtain i where
    i: "i < length (typingUsers s)" "typing_key (typingUsers s ! i) = typing_key u"
       "typingUsers (addTypingUser u s) = (typingUsers s)[i := u]" by blast
  have "map typing_key ((typingUsers s)[i := u]) = (map typing_key (typingUsers s))[i := typing_key u]"
    by (simp add: map_update)
  also have "\<dots> = map typing_key (typingUsers s)"
    using i(1,2) by (metis list_update_id nth_map)
  finally show ?thesis using i(3) by simp
qed

lemma addTypingUser_distinct:
  assumes "distinct (map typing_key (typingUsers s))"
  shows "distinct (map typing_key (typingUsers (addTypingUser u s)))"
proof (cases "typing_key u \<in> typing_key ` set (typingUsers s)")
  case True
  with assms show ?thesis by (simp add: addTypingUser_present_keys)
next
  case False
  with assms show ?thesis by (simp add: addTypingUser_absent)
qed

lemma removeTypingUser_distinct:
  "distinct (map typing_key (typingUsers s)) \<Longrightarrow>
   distinct (map typing_key (typingUsers (removeTypingUser uid rid s)))"
  by (simp add: removeTypingUser_def distinct_map_filter)

lemma run_typing_ops_distinct:
  "distinct (map typing_key (typingUsers s)) \<Longrightarrow>
   distinct (map typing_key (typingUsers (run_typing_ops ops s)))"
  unfolding run_typing_ops_def
proof (induction ops arbitrary: s)
  case Nil
  then show ?case by simp
next
  case (Cons a ops)
  have "distinct (map typing_key (typingUsers (apply_typing_op s a)))"
    using Cons.prems by (cases a) (simp_all add: addTypingUser_distinct removeTypingUser_distinct)
  then show ?case using Cons.IH by simp
qed

text \<open>
  Claim C9. From the initial store, after any sequence of \<open>addTypingUser\<close> and
  \<open>removeTypingUser\<close> the list \<open>typingUsers\<close> holds at most one entry per pair
  (user id, room id); and \<open>addTypingUser\<close> with a pair that is present replaces that entry
  where it stands, so the length of the list does not change.
\<close>

theorem typing_users_one_entry_per_pair:
  "distinct (map typing_key (typingUsers (run_typing_ops ops initialState)))
   \<and> (typing_key u \<in> typing_key ` set (typingUsers s) \<longrightarrow>
        length (typingUsers (addTypingUser u s)) = length (typingUsers s)
        \<and> (\<exists>i < length (typingUsers s).
              typing_key (typingUsers s ! i) = typing_key u
              \<and> typingUsers (addTypingUser u s) = (typingUsers s)[i := u]))"
proof (intro conjI impI)
  show "distinct (map typing_key (typingUsers (run_typing_ops ops initialState)))"
    by (rule run_typing_ops_distinct) (simp add: initialState_def)
next
  assume k: "typing_key u \<in> typing_key ` set (typingUsers s)"
  from addTypingUser_present [OF k]
  show "length (typingUsers (addTypingUser u s)) = length (typingUsers s)" by auto
  from addTypingUser_present [OF k]
  show "\<exists>i < length (typingUsers s).
          typing_key (typingUsers s ! i) = typing_key u
          \<and> typingUsers (addTypingUser u s) = (typingUsers s)[i := u]" .
qed

text \<open>The statement at a store where alice is typing in room r1 and starts typing again.\<close>

theorem typing_users_one_entry_per_pair_witness:
  "typing_key alice_typing_again \<in> typing_key ` set (typingUsers (addTypingUser alice_typing initialState))
   \<and> typingUsers (addTypingUser alice_typing_again (addTypingUser alice_typing initialState))
       = [alice_typing_again]
   \<and> distinct (map typing_key (typingUsers (run_typing_ops
        [AddTypingUser alice_typing, AddTypingUser alice_typing_again, RemoveTypingUser ''u2'' ''r1'']
        initialState)))"
proof -
  have s: "typingUsers (addTypingUser alice_typing initialState) = [alice_typing]"
    by (simp add: addTypingUser_def initialState_def Let_def)
  have k: "typing_key alice_typing_again \<in> typing_key ` set (typingUsers (addTypingUser alice_typing initialState))"
    unfolding s by (simp add: typing_key_def alice_typing_def alice_typing_again_def)
  from typing_users_one_entry_per_pair
         [of "[AddTypingUser alice_typing, AddTypingUser alice_typing_again, RemoveTypingUser ''u2'' ''r1'']"
             alice_typing_again "addTypingUser alice_typing initialState"] k
  have d: "distinct (map typing_key (typingUsers (run_typing_ops
        [AddTypingUser alice_typing, AddTypingUser alice_typing_again, RemoveTypingUser ''u2'' ''r1'']
        initialState)))"
    and e: "\<exists>i < length (typingUsers (addTypingUser alice_typing initialState)).
              typingUsers (addTypingUser alice_typing_again (addTypingUser alice_typing initialState))
                = (typingUsers (addTypingUser alice_typing initialState))[i := alice_typing_again]"
    by blast+
  from e have "typingUsers (addTypingUser alice_typing_again (addTypingUser alice_typing initialState))
       = [alice_typing_again]" by (auto simp: s)
  with k d show ?thesis by simp
qed


section \<open>Receipts\<close>

text \<open>
  Claim C1, at a failing input. The effect registered the handlers when the store was
  empty, so the \<open>messages\<close> they closed over is the empty list. Message m1 arrives, then user u1 reads
  it, then user u3 reads it. The handler computes the new \<open>read_by\<close> from the list it closed
  over, where m1 is not found, and \<open>updateMessage\<close> overwrites the field: after the first
  receipt \<open>read_by\<close> is [u1], after the second it is [u3], and u1 is gone. The same happens to
  \<open>delivered_to\<close>.
\<close>

theorem message_read_drops_earlier_reader:
  "map read_by (messages (chat (run [Server (NewMessage msg1), Server (MessageRead receipt_u1)]
                                  (snd (effect_run True True app0))))) = [[''u1'']]
   \<and> map read_by (messages (chat (run [Server (NewMessage msg1), Server (MessageRead receipt_u1),
                                       Server (MessageRead receipt_u3)]
                                      (snd (effect_run True True app0))))) = [[''u3'']]
   \<and> map delivered_to (messages (chat (run [Server (NewMessage msg1),
                                            Server (MessageDelivered receipt_u1),
                                            Server (MessageDelivered receipt_u3)]
                                           (snd (effect_run True True app0))))) = [[''u3'']]"
proof -
  have s: "snd (effect_run True True app0) = app0\<lparr>chat_listeners := [[]]\<rparr>"
    by (simp add: effect_run_app0)
  show ?thesis
    unfolding s
    by (simp add: run_def on_server_event_def registered_events_eq
        socket_handlers_def app0_def initialState_def handleNewMessage_def
        handleMessageRead_def handleMessageDelivered_def addMessage_def updateMessage_def
        spread_def no_updates_def msg1_def receipt_u1_def receipt_u3_def)
qed

section \<open>Receiving a message\<close>

lemma foldl_handleNewMessage:
  "messages (chat (foldl (\<lambda>a closure. handleNewMessage m a) app cls))
     = replicate (length cls) m @ messages (chat app)"
proof (induction cls arbitrary: app)
  case Nil
  then show ?case by simp
next
  case (Cons c cls)
  have "messages (chat (handleNewMessage m app)) = m # messages (chat app)"
    by (simp add: handleNewMessage_def addMessage_def)
  with Cons.IH [of "handleNewMessage m app"] show ?case
    by (simp add: replicate_app_Cons_same)
qed

text \<open>Claim C2 as stated fails: after a second receipt of m1 the ledger differs from the
  ledger after the first.\<close>

theorem new_message_twice_counterexample:
  "messages (chat (on_server_event (NewMessage msg1) (on_server_event (NewMessage msg1) app1)))
     \<noteq> messages (chat (on_server_event (NewMessage msg1) app1))"
  by (simp add: app1_def effect_run_app0 on_server_event_NewMessage handleNewMessage_def
      addMessage_def)

text \<open>
  Claim C2, amended. The handler of \<open>new_message\<close> puts the message at the head of the
  ledger whatever the ledger holds; a second receipt of the same message puts a second
  entry with that id there. An event runs the handler once for every run of the effect
  that registered it.
\<close>

theorem new_message_prepends:
  "messages (chat (handleNewMessage m app)) = m # messages (chat app)
   \<and> messages (chat (handleNewMessage m (handleNewMessage m app))) = m # m # messages (chat app)
   \<and> messages (chat (on_server_event (NewMessage m) app))
       = replicate (length (chat_listeners app)) m @ messages (chat app)
   \<and> messages (chat (on_server_event (NewMessage m) (on_server_event (NewMessage m) app1)))
       = m # m # messages (chat app1)"
proof -
  have h1: "messages (chat (handleNewMessage m a)) = m # messages (chat a)" for a
    by (simp add: handleNewMessage_def addMessage_def)
  have ev: "messages (chat (on_server_event (NewMessage m) a))
       = replicate (length (chat_listeners a)) m @ messages (chat a)" for a
    by (simp add: on_server_event_NewMessage foldl_handleNewMessage)
  have one: "chat_listeners app1 = [[]]" by (simp add: app1_def effect_run_app0)
  have keep: "chat_listeners (on_server_event (NewMessage m) app1) = [[]]"
    by (simp add: on_server_event_NewMessage one handleNewMessage_def)
  have twice: "messages (chat (on_server_event (NewMessage m) (on_server_event (NewMessage m) app1)))
       = m # m # messages (chat app1)"
    by (simp add: ev [of "on_server_event (NewMessage m) app1"] keep ev [of app1] one)
  from h1 [of app] h1 [of "handleNewMessage m app"] ev [of app] twice
  show ?thesis by simp
qed


section \<open>Emitting while not connected\<close>

text \<open>
  Claim C10. For every event name and payload, \<open>emit\<close> with the main socket absent or not
  connected, and \<open>emitToChat\<close> with the chat socket absent or not connected, return the
  \<open>SocketAPI\<close> as it was: nothing is handed to a socket, the connection state and its
  error are untouched, and nothing is kept for a later retry.
\<close>

theorem emit_unconnected_is_noop:
  "(\<not> is_connected (socket a) \<longrightarrow> emit event data a = a)
   \<and> (\<not> is_connected (chatSocket a) \<longrightarrow> emitToChat event data a = a)"
  by (simp add: emit_def emitToChat_def)

text \<open>The statement with no main socket and a chat socket that is not connected.\<close>

theorem emit_unconnected_is_noop_witness:
  "\<not> is_connected (socket idle_api) \<and> \<not> is_connected (chatSocket idle_api)
   \<and> emit ''authenticate'' (JObj [(''token'', JStr ''tok'')]) idle_api = idle_api
   \<and> emitToChat ''send_message'' (JObj [(''content'', JText hi)]) idle_api = idle_api"
proof -
  have a: "\<not> is_connected (socket idle_api)"
    by (simp add: idle_api_def initialSocketAPI_def is_connected_def)
  have b: "\<not> is_connected (chatSocket idle_api)"
    by (simp add: idle_api_def initialSocketAPI_def is_connected_def io_def)
  from emit_unconnected_is_noop [of idle_api "''authenticate''" "JObj [(''token'', JStr ''tok'')]"] a
  have c: "emit ''authenticate'' (JObj [(''token'', JStr ''tok'')]) idle_api = idle_api" by blast
  from emit_unconnected_is_noop [of idle_api "''send_message''" "JObj [(''content'', JText hi)]"] b
  have d: "emitToChat ''send_message'' (JObj [(''content'', JText hi)]) idle_api = idle_api" by blast
  from a b c d show ?thesis by blast
qed



section \<open>Connecting\<close>

lemma fst_on_transport:
  "fst (on_transport ev (p, a)) =
     (case ev of Connect \<Rightarrow> resolve p | Disconnect \<Rightarrow> p
      | ErrorEvent msg \<Rightarrow> reject msg p | ConnectError msg \<Rightarrow> reject msg p)"
  by (cases ev) (simp_all add: Let_def)

lemma run_transport_settled:
  "p \<noteq> Pending \<Longrightarrow> fst (run_transport evs (p, a)) = p"
  unfolding run_transport_def
proof (induction evs arbitrary: p a)
  case Nil
  then show ?case by simp
next
  case (Cons ev evs)
  obtain p' a' where s: "on_transport ev (p, a) = (p', a')" by (cases "on_transport ev (p, a)")
  have "p' = p" using fst_on_transport [of ev p a] s Cons.prems
    by (cases ev; cases p) (simp_all add: resolve_def reject_def)
  with Cons s show ?case by simp
qed

lemma run_transport_pending:
  "fst (run_transport evs (Pending, a)) = outcome evs"
proof (induction evs arbitrary: a)
  case Nil
  then show ?case by (simp add: run_transport_def)
next
  case (Cons ev evs)
  obtain p' a' where s: "on_transport ev (Pending, a) = (p', a')"
    by (cases "on_transport ev (Pending, a)")
  have step: "run_transport (ev # evs) (Pending, a) = run_transport evs (p', a')"
    by (simp add: run_transport_def s)
  show ?case
  proof (cases ev)
    case Connect
    with s have "p' = Resolved" by (simp add: Let_def resolve_def)
    with step Connect show ?thesis by (simp add: run_transport_settled)
  next
    case Disconnect
    with s have "p' = Pending" by (simp add: Let_def)
    with step Disconnect Cons.IH show ?thesis by simp
  next
    case (ErrorEvent msg)
    with s have "p' = Rejected msg" by (simp add: Let_def reject_def)
    with step ErrorEvent show ?thesis by (simp add: run_transport_settled)
  next
    case (ConnectError msg)
    with s have "p' = Rejected msg" by (simp add: Let_def reject_def)
    with step ConnectError show ?thesis by (simp add: run_transport_settled)
  qed
qed

text \<open>
  Claim C8, amended. A call of \<open>connect()\<close> with the main socket connected resolves at once
  and returns the \<open>SocketAPI\<close> as it was, so no transport is constructed. Otherwise the call
  installs a new transport, and its promise is settled by the first \<open>connect\<close>, \<open>error\<close> or
  \<open>connect_error\<close> event of that transport and never again: resolved by \<open>connect\<close>,
  rejected by the other two, pending while none has arrived.
\<close>

theorem connect_settles_by_first_event:
  "(is_connected (socket a) \<longrightarrow> connect a = (Resolved, a))
   \<and> (\<not> is_connected (socket a) \<longrightarrow>
        socket (snd (connect a)) = Some io
        \<and> fst (run_transport evs (connect a)) = outcome evs)"
  by (simp add: connect_def resolve_def run_transport_pending)

text \<open>The statement at a connected client, and at a fresh one whose transport connects.\<close>

theorem connect_settles_by_first_event_witness:
  "is_connected (socket connected_api) \<and> connect connected_api = (Resolved, connected_api)
   \<and> \<not> is_connected (socket initialSocketAPI)
   \<and> fst (run_transport [Disconnect, Connect, ErrorEvent ''late''] (connect initialSocketAPI)) = Resolved"
proof -
  have a: "is_connected (socket connected_api)" by (simp add: connected_api_def is_connected_def)
  have b: "\<not> is_connected (socket initialSocketAPI)"
    by (simp add: initialSocketAPI_def is_connected_def)
  from connect_settles_by_first_event [of connected_api] a
  have c: "connect connected_api = (Resolved, connected_api)" by blast
  from connect_settles_by_first_event [of initialSocketAPI "[Disconnect, Connect, ErrorEvent ''late'']"] b
  have "fst (run_transport [Disconnect, Connect, ErrorEvent ''late''] (connect initialSocketAPI))
          = outcome [Disconnect, Connect, ErrorEvent ''late'']" by blast
  then have d: "fst (run_transport [Disconnect, Connect, ErrorEvent ''late''] (connect initialSocketAPI)) = Resolved"
    by simp
  from a b c d show ?thesis by blast
qed

text \<open>
  Claim C8 as stated fails: when the new transport reports \<open>connect_error\<close> the promise is
  rejected, and a later \<open>connect\<close> does not resolve it; with no event it stays pending.
\<close>

theorem connect_rejected_counterexample:
  "fst (run_transport [ConnectError ''xhr poll error'', Connect] (connect initialSocketAPI))
     = Rejected ''xhr poll error''
   \<and> fst (run_transport [] (connect initialSocketAPI)) = Pending"
  by (simp add: run_transport_def connect_def initialSocketAPI_def is_connected_def io_def
      emit_def Let_def reject_def resolve_def set_connected_def startHeartbeat_def stopHeartbeat_def)


section \<open>Presence\<close>

text \<open>
  Claim C7, at a failing input. The effect calls \<open>chatAPI.onOnlineUsers\<close>, \<open>onAllUsers\<close>,
  \<open>onUserOnline\<close> and \<open>onUserOffline\<close> to register its presence handlers; \<open>ChatAPI\<close> has none
  of these methods, so the first call throws and no presence event has a listener. The
  snapshots \<open>online_users\<close> and \<open>all_users\<close> with u1 and u2 and the delta \<open>user_offline\<close> for
  u2, which carries a last-seen timestamp, leave the user store as it was at the start:
  it shows neither u1 as online nor u2 as offline with that timestamp.
\<close>

theorem presence_events_have_no_listener:
  "fst (effect_run True True app0) = Some (TypeError ''chatAPI.onOnlineUsers is not a function'')
   \<and> users (run [Server (OnlineUsers [user1, user2]), Server (AllUsers [user1, user2]),
                  Server (UserOffline u2_offline)] (snd (effect_run True True app0)))
       = initialUserState
   \<and> onlineUsers initialUserState = [] \<and> allUsers initialUserState = []"
proof -
  have s: "snd (effect_run True True app0) = app0\<lparr>chat_listeners := [[]]\<rparr>"
    by (simp add: effect_run_app0)
  show ?thesis
    unfolding s
    by (simp add: effect_run_app0 run_def on_server_event_def registered_events_eq
        socket_handlers_def)
      (simp add: app0_def initialUserState_def)
qed

section \<open>Sending a message\<close>

lemma all_dropWhile: "(\<forall>x \<in> set (dropWhile P xs). P x) \<longleftrightarrow> (\<forall>x \<in> set xs. P x)"
  by (induction xs) auto

lemma trim_Nil_iff: "trim s = [] \<longleftrightarrow> (\<forall>c \<in> set s. is_whitespace c)"
  by (simp add: trim_def dropWhile_eq_Nil_conv all_dropWhile)

text \<open>A content is valid when it has a code unit that is not whitespace and at most 1000
  code units.\<close>

lemma validateMessage_valid_iff:
  "isValid (validateMessage c) \<longleftrightarrow> (\<exists>x \<in> set c. \<not> is_whitespace x) \<and> length c \<le> 1000"
proof -
  have "c = [] \<or> length (trim c) = 0 \<longleftrightarrow> trim c = []"
    by (auto simp: trim_def)
  then show ?thesis
    by (auto simp: validateMessage_def Let_def trim_Nil_iff)
qed

lemma setError_not_in_value: "''setError'' \<notin> set ChatContext_value"
  by (simp add: ChatContext_value_def)

lemma invalid_message_not_sent:
  "\<not> isValid (validateMessage c) \<Longrightarrow> snd (useChat_sendMessage c r mt app) = app"
  by (simp add: useChat_sendMessage_def Let_def setError_not_in_value)

text \<open>
  Claim C5, at a failing input. With a user logged in, the empty content and a content of
  two spaces fail \<open>validateMessage\<close>; the hook then calls \<open>chatContext.setError\<close>, which the
  context value does not have. The call throws a \<open>TypeError\<close>; nothing is emitted and the
  whole state, the store's \<open>error\<close> field included, is as before.
\<close>

theorem invalid_message_throws:
  "useChat_sendMessage [] ''r1'' None app0
     = (Some (TypeError ''chatContext.setError is not a function''), app0)
   \<and> error (chat app0) = None
   \<and> useChat_sendMessage [0x20, 0x20] ''r1'' None app0
     = (Some (TypeError ''chatContext.setError is not a function''), app0)"
  by (simp add: useChat_sendMessage_def validateMessage_def trim_def is_whitespace_def Let_def
      ChatContext_value_def app0_def initialState_def)

text \<open>
  Claim C3 as stated fails. The connected client sends \<open>"hi"\<close> to room r1: the ledger is
  empty after the call, and it is still empty after the acknowledgment \<open>message_sent\<close> for
  m1.
\<close>

theorem sendMessage_counterexample:
  "messages (chat (snd (useChat_sendMessage hi ''r1'' None app0))) = []
   \<and> messages (chat (on_server_event (MessageSent ''m1'' ''2024-05-01T10:00:01Z'')
                      (snd (useChat_sendMessage hi ''r1'' None app0)))) = []"
  by (simp add: useChat_sendMessage_def validateMessage_def trim_def is_whitespace_def Let_def
      hi_def app0_def initialState_def ChatContext_clearError_def ChatContext_sendMessage_def
      clearError_def alice_def on_server_event_MessageSent)

text \<open>
  Claim C3, amended. For a logged-in user, a connected chat socket and a content that passes
  \<open>validateMessage\<close>, \<open>sendMessage\<close> throws nothing, hands exactly one \<open>send_message\<close> request
  with the content, the room id and the message type (\<open>'text'\<close> by default) to the chat
  socket and nothing to the main socket, and leaves the ledger as it was: no optimistic
  entry is inserted. The call changes nothing else but the store's \<open>error\<close>, which it
  clears. The acknowledgment \<open>message_sent\<close> has no listener and changes nothing.
\<close>

theorem sendMessage_emits_and_leaves_ledger:
  assumes "user app \<noteq> None" and "is_connected (chatSocket (api app))"
    and "isValid (validateMessage c)"
  shows "fst (useChat_sendMessage c r mt app) = None
   \<and> messages (chat (snd (useChat_sendMessage c r mt app))) = messages (chat app)
   \<and> chatSocket (api (snd (useChat_sendMessage c r mt app)))
       = map_option
           (socket_emit ''send_message''
              (JObj [(''content'', JText c), (''room_id'', JStr r),
                     (''message_type'', JStr (case mt of None \<Rightarrow> ''text'' | Some t \<Rightarrow> t))]))
           (chatSocket (api app))
   \<and> socket (api (snd (useChat_sendMessage c r mt app))) = socket (api app)
   \<and> snd (useChat_sendMessage c r mt app)
       = app\<lparr>api := (api app)\<lparr>chatSocket :=
                 map_option
                   (socket_emit ''send_message''
                      (JObj [(''content'', JText c), (''room_id'', JStr r),
                             (''message_type'',
                              JStr (case mt of None \<Rightarrow> ''text'' | Some t \<Rightarrow> t))]))
                   (chatSocket (api app))\<rparr>,
              chat := (chat app)\<lparr>error := None\<rparr>\<rparr>
   \<and> on_server_event (MessageSent mid ts) (snd (useChat_sendMessage c r mt app))
       = snd (useChat_sendMessage c r mt app)"
proof -
  from assms(1) obtain y where "user app = Some y" by auto
  with assms(2,3) show ?thesis
    by (simp add: useChat_sendMessage_def Let_def ChatContext_clearError_def
        ChatContext_sendMessage_def ChatAPI_sendMessage_def SocketAPI_sendMessage_def
        emitToChat_def clearError_def on_server_event_MessageSent)
qed

text \<open>The statement for the connected client sending \<open>"hi"\<close> to room r1.\<close>

theorem sendMessage_emits_and_leaves_ledger_witness:
  "user app0 \<noteq> None \<and> is_connected (chatSocket (api app0)) \<and> isValid (validateMessage hi)
   \<and> map_option emitted (chatSocket (api (snd (useChat_sendMessage hi ''r1'' None app0))))
       = Some [(''send_message'',
                JObj [(''content'', JText hi), (''room_id'', JStr ''r1''),
                      (''message_type'', JStr ''text'')])]
   \<and> map_option emitted (socket (api (snd (useChat_sendMessage hi ''r1'' None app0)))) = Some []
   \<and> messages (chat (snd (useChat_sendMessage hi ''r1'' None app0))) = []"
proof -
  have a: "user app0 \<noteq> None" by (simp add: app0_def)
  have b: "is_connected (chatSocket (api app0))"
    by (simp add: app0_def connected_api_def is_connected_def)
  have c: "isValid (validateMessage hi)"
    by (simp add: validateMessage_def trim_def is_whitespace_def hi_def Let_def)
  from sendMessage_emits_and_leaves_ledger [OF a b c, of "''r1''" None]
  have d: "chatSocket (api (snd (useChat_sendMessage hi ''r1'' None app0)))
       = map_option
           (socket_emit ''send_message''
              (JObj [(''content'', JText hi), (''room_id'', JStr ''r1''),
                     (''message_type'', JStr ''text'')]))
           (chatSocket (api app0))"
    and e: "messages (chat (snd (useChat_sendMessage hi ''r1'' None app0))) = messages (chat app0)"
    and m: "socket (api (snd (useChat_sendMessage hi ''r1'' None app0))) = socket (api app0)"
    by simp_all
  have f: "map_option emitted (chatSocket (api (snd (useChat_sendMessage hi ''r1'' None app0))))
       = Some [(''send_message'',
                JObj [(''content'', JText hi), (''room_id'', JStr ''r1''),
                      (''message_type'', JStr ''text'')])]"
    unfolding d by (simp add: app0_def connected_api_def socket_emit_def)
  have g: "messages (chat (snd (useChat_sendMessage hi ''r1'' None app0))) = []"
    unfolding e by (simp add: app0_def initialState_def)
  have h: "map_option emitted (socket (api (snd (useChat_sendMessage hi ''r1'' None app0)))) = Some []"
    unfolding m by (simp add: app0_def connected_api_def)
  from a b c f g h show ?thesis by blast
qed

section \<open>Remote typing entries\<close>

lemma addTypingUser_keys:
  "typing_key ` set (typingUsers (addTypingUser u s))
     = insert (typing_key u) (typing_key ` set (typingUsers s))"
proof (cases "typing_key u \<in> typing_key ` set (typingUsers s)")
  case True
  from addTypingUser_present_keys [OF True]
  have "set (map typing_key (typingUsers (addTypingUser u s))) = set (map typing_key (typingUsers s))"
    by simp
  with True show ?thesis by auto
next
  case False
  then show ?thesis by (simp add: addTypingUser_absent)
qed

lemma typing_key_fields:
  "typing_key \<lparr>t_user_id = a, t_room_id = b, t_username = c, t_is_typing = e\<rparr> = (a, b)"
  by (simp add: typing_key_def)

lemma removeTypingUser_keeps:
  "k \<in> typing_key ` set (typingUsers s) \<Longrightarrow> k \<noteq> (uid, rid) \<Longrightarrow>
   k \<in> typing_key ` set (typingUsers (removeTypingUser uid rid s))"
  by (auto simp: removeTypingUser_def typing_key_def)

lemma handleUserTyping_keeps:
  assumes "(u, r) \<in> typing_key ` set (typingUsers (chat app))"
    and "\<not> (\<not> t_is_typing d \<and> t_user_id d = u \<and> t_room_id d = r)"
  shows "(u, r) \<in> typing_key ` set (typingUsers (chat (handleUserTyping d app)))"
proof (cases "t_is_typing d")
  case True
  with assms(1) show ?thesis by (simp add: handleUserTyping_def addTypingUser_keys)
next
  case False
  with assms(2) have "(u, r) \<noteq> (t_user_id d, t_room_id d)" by auto
  from removeTypingUser_keeps [OF assms(1) this] False
  show ?thesis by (simp add: handleUserTyping_def)
qed

lemma handler_keeps:
  assumes "(u, r) \<in> typing_key ` set (typingUsers (chat app))"
    and "\<not> removes_typing u r (Server ev)"
  shows "(u, r) \<in> typing_key ` set (typingUsers (chat (handler closure ev app)))"
proof (cases ev)
  case (UserTyping d)
  with assms show ?thesis by (simp add: handleUserTyping_keeps)
qed (use assms(1) in \<open>simp_all add: handleNewMessage_def addMessage_def handleMessageRead_def
      handleMessageDelivered_def updateMessage_def handleRoomMessages_def setMessages_def
      handleOnlineUsers_def handleAllUsers_def handleUserOnline_def handleUserOffline_def
      handleError_def setError_def\<close>)

lemma foldl_handler_keeps:
  "(u, r) \<in> typing_key ` set (typingUsers (chat app)) \<Longrightarrow>
   \<not> removes_typing u r (Server ev) \<Longrightarrow>
   (u, r) \<in> typing_key ` set (typingUsers (chat (foldl (\<lambda>a closure. handler closure ev a) app cls)))"
proof (induction cls arbitrary: app)
  case Nil
  then show ?case by simp
next
  case (Cons c cls)
  from Cons.prems have "(u, r) \<in> typing_key ` set (typingUsers (chat (handler c ev app)))"
    by (rule handler_keeps)
  from Cons.IH [OF this Cons.prems(2)] show ?case by simp
qed

lemma chat_socket_handlers: "chat (socket_handlers ev app) = chat app"
  by (cases ev) (simp_all add: socket_handlers_def)

lemma on_server_event_keeps:
  assumes "(u, r) \<in> typing_key ` set (typingUsers (chat app))"
    and "\<not> removes_typing u r (Server ev)"
  shows "(u, r) \<in> typing_key ` set (typingUsers (chat (on_server_event ev app)))"
proof -
  have "(u, r) \<in> typing_key ` set (typingUsers (chat (socket_handlers ev app)))"
    using assms(1) by (simp add: chat_socket_handlers)
  from foldl_handler_keeps [OF this assms(2)] this show ?thesis
    by (simp add: on_server_event_def)
qed

lemma app_step_keeps:
  assumes "(u, r) \<in> typing_key ` set (typingUsers (chat app))"
    and "\<not> removes_typing u r e"
  shows "(u, r) \<in> typing_key ` set (typingUsers (chat (app_step app e)))"
proof (cases e)
  case (Server ev)
  with assms show ?thesis by (simp add: on_server_event_keeps)
qed (use assms in \<open>simp_all add: effect_run_def typing_timeout_fired_def ChatContext_stopTyping_def\<close>)

lemma run_keeps:
  "(u, r) \<in> typing_key ` set (typingUsers (chat app)) \<Longrightarrow>
   \<forall>e \<in> set evs. \<not> removes_typing u r e \<Longrightarrow>
   (u, r) \<in> typing_key ` set (typingUsers (chat (run evs app)))"
  unfolding run_def
proof (induction evs arbitrary: app)
  case Nil
  then show ?case by simp
next
  case (Cons e evs)
  from Cons.prems have "(u, r) \<in> typing_key ` set (typingUsers (chat (app_step app e)))"
    by (simp add: app_step_keeps)
  from Cons.IH [OF this] Cons.prems(2) show ?case by simp
qed

lemma handleUserTyping_inserts:
  "t_is_typing d \<Longrightarrow>
   (t_user_id d, t_room_id d) \<in> typing_key ` set (typingUsers (chat (handleUserTyping d app)))"
  by (simp add: handleUserTyping_def addTypingUser_keys typing_key_fields)

lemma foldl_handleUserTyping_inserts:
  fixes cls :: "Message list list"
  assumes "t_is_typing d" and "cls \<noteq> []"
  shows "(t_user_id d, t_room_id d)
           \<in> typing_key ` set (typingUsers (chat (foldl (\<lambda>a closure. handleUserTyping d a) app cls)))"
proof -
  from assms(2) obtain c cs where cls: "cls = c # cs" by (cases cls) auto
  have nr: "\<not> removes_typing (t_user_id d) (t_room_id d) (Server (UserTyping d))"
    using assms(1) by simp
  from foldl_handler_keeps [OF handleUserTyping_inserts [OF assms(1)] nr, of app cs]
  show ?thesis by (simp add: cls)
qed

text \<open>
  Claim C4, amended. An entry inserted by a remote typing-start is in the typing set at
  every later time \<open>t\<close>, however late, as long as none of the callbacks that ran up to \<open>t\<close>
  is a typing-stop for that user and room or an explicit clearing or reset of the store.
  The store keeps no expiry time, and the timers of the client do not touch the typing
  set. This holds of the handler, and of the event wherever the effect has registered the
  handler.
\<close>

theorem remote_typing_entry_persists:
  assumes "t_is_typing d"
    and "\<forall>(at, e) \<in> set trace. at \<le> t \<longrightarrow> \<not> removes_typing (t_user_id d) (t_room_id d) e"
  shows "(t_user_id d, t_room_id d)
           \<in> typing_key ` set (typingUsers (chat (run_until t trace (handleUserTyping d app))))
   \<and> (chat_listeners app \<noteq> [] \<longrightarrow>
        (t_user_id d, t_room_id d)
           \<in> typing_key ` set (typingUsers (chat (run_until t trace
                 (on_server_event (UserTyping d) app)))))"
proof -
  have quiet: "\<forall>e \<in> set (map snd (filter (\<lambda>(at, ev). at \<le> t) trace)).
          \<not> removes_typing (t_user_id d) (t_room_id d) e"
    using assms(2) by auto
  have one: "(t_user_id d, t_room_id d)
           \<in> typing_key ` set (typingUsers (chat (run_until t trace (handleUserTyping d app))))"
    using run_keeps [OF handleUserTyping_inserts [OF assms(1)] quiet]
    by (simp add: run_until_def)
  have two: "(t_user_id d, t_room_id d)
           \<in> typing_key ` set (typingUsers (chat (run_until t trace
                 (on_server_event (UserTyping d) app))))"
    if "chat_listeners app \<noteq> []"
    using run_keeps [OF foldl_handleUserTyping_inserts [OF assms(1) that] quiet]
    by (simp add: run_until_def on_server_event_UserTyping)
  from one two show ?thesis by blast
qed

text \<open>The statement for bob typing in r1, observed after 60 s in which the local typing
  timeout and the heartbeat fired.\<close>

theorem remote_typing_entry_persists_witness:
  "t_is_typing bob_typing
   \<and> \<not> removes_typing ''u2'' ''r1'' (TypingTimeoutFired ''r1'')
   \<and> \<not> removes_typing ''u2'' ''r1'' HeartbeatTick
   \<and> chat_listeners app1 \<noteq> []
   \<and> (''u2'', ''r1'') \<in> typing_key ` set (typingUsers (chat (run_until 60000
         [(5000, TypingTimeoutFired ''r1''), (30000, HeartbeatTick)]
         (on_server_event (UserTyping bob_typing) app1))))"
proof -
  have a: "t_is_typing bob_typing" by (simp add: bob_typing_def)
  have b: "\<forall>(at, e) \<in> set [(5000, TypingTimeoutFired ''r1''), (30000, HeartbeatTick)].
             at \<le> (60000::nat) \<longrightarrow> \<not> removes_typing (t_user_id bob_typing) (t_room_id bob_typing) e"
    by simp
  have c: "chat_listeners app1 \<noteq> []" by (simp add: app1_def effect_run_app0)
  from remote_typing_entry_persists [OF a b, of app1] c
  have "(t_user_id bob_typing, t_room_id bob_typing)
          \<in> typing_key ` set (typingUsers (chat (run_until 60000
         [(5000, TypingTimeoutFired ''r1''), (30000, HeartbeatTick)]
         (on_server_event (UserTyping bob_typing) app1))))"
    by blast
  then have "(''u2'', ''r1'') \<in> typing_key ` set (typingUsers (chat (run_until 60000
         [(5000, TypingTimeoutFired ''r1''), (30000, HeartbeatTick)]
         (on_server_event (UserTyping bob_typing) app1))))"
    by (simp add: bob_typing_def)
  with a c show ?thesis by simp
qed

text \<open>
  Claim C4 as stated fails. Bob's typing-start arrives at time 0 and nothing else arrives
  for bob: his entry is in the typing set just after the window of 5000 ms, and after
  60 s.
\<close>

theorem remote_typing_entry_outlives_window:
  "typingUsers (chat (run_until (TYPING_TIMEOUT + 1) [(0, Server (UserTyping bob_typing))] app1))
     = [bob_typing]
   \<and> typingUsers (chat (run_until 60000
        [(0, Server (UserTyping bob_typing)), (30000, HeartbeatTick)] app1)) = [bob_typing]"
proof -
  have s: "app1 = app0\<lparr>chat_listeners := [[]]\<rparr>" by (simp add: app1_def effect_run_app0)
  show ?thesis
    unfolding s
    by (simp add: run_until_def run_def TYPING_TIMEOUT_def on_server_event_UserTyping
        handleUserTyping_def addTypingUser_def Let_def app0_def initialState_def bob_typing_def)
qed

section \<open>Unread counters\<close>












end
